theory Spec2Isabelle
  imports Complex_Main
begin

section \<open>Data model\<close>

text \<open>
  The repository is a toy bank written in Python. This theory embeds its transaction
  pipeline: the accounts (\<^verbatim>\<open>BankAccount\<close>, \<^verbatim>\<open>SavingsAccount\<close>,
  \<^verbatim>\<open>PremiumAccount\<close>, \<^verbatim>\<open>InvestmentAccount\<close>), the
  \<^verbatim>\<open>Transaction\<close> dataclass, the \<^verbatim>\<open>TransactionQueue\<close>, the
  \<^verbatim>\<open>RiskAnalyzer\<close> with the \<^verbatim>\<open>AuditLog\<close>, and the
  \<^verbatim>\<open>TransactionProcessor\<close>.

  Conventions of the embedding:
  \<^item> Python \<^verbatim>\<open>float\<close> amounts are exact rationals (\<^typ>\<open>rat\<close>); rounding, infinities
    and NaN are outside the model.
  \<^item> A \<^verbatim>\<open>datetime\<close> is an integer number of microseconds since the epoch, in UTC;
    \<^verbatim>\<open>timedelta(seconds=n)\<close> is \<open>n * 1000000\<close>.
  \<^item> Every call of \<^verbatim>\<open>datetime.now(timezone.utc)\<close> inside one operation reads the
    parameter \<open>clock\<close> of that operation: the wall clock, which is independent of the
    argument \<^verbatim>\<open>now\<close> the caller passes.
  \<^item> Python objects that are shared and mutated in place (transactions, accounts) live in
    stores indexed by references; a transaction names its sender and recipient by reference.
  \<^item> An exception is a value of type \<open>exn\<close>. The message literals of the source are
    Russian; they are written here in English.
\<close>

type_synonym datetime = int
type_synonym ref = nat

definition timedelta_seconds :: "int \<Rightarrow> int" where
  "timedelta_seconds n = n * 1000000"

datatype AccountStatus = ACTIVE | FROZEN | CLOSED

datatype Currency = RUB | USD | EUR | KZT | CNY

datatype exn =
    AccountFrozenError string
  | AccountClosedError string
  | InvalidOperationError string
  | InsufficientFundsError string
  | AttributeError string
  | ValueError string

fun exn_str :: "exn \<Rightarrow> string" where
  "exn_str (AccountFrozenError m) = m"
| "exn_str (AccountClosedError m) = m"
| "exn_str (InvalidOperationError m) = m"
| "exn_str (InsufficientFundsError m) = m"
| "exn_str (AttributeError m) = m"
| "exn_str (ValueError m) = m"

fun exn_type_name :: "exn \<Rightarrow> string" where
  "exn_type_name (AccountFrozenError m) = ''AccountFrozenError''"
| "exn_type_name (AccountClosedError m) = ''AccountClosedError''"
| "exn_type_name (InvalidOperationError m) = ''InvalidOperationError''"
| "exn_type_name (InsufficientFundsError m) = ''InsufficientFundsError''"
| "exn_type_name (AttributeError m) = ''AttributeError''"
| "exn_type_name (ValueError m) = ''ValueError''"

subsection \<open>Accounts\<close>

text \<open>
  The class of an account object decides which \<^verbatim>\<open>withdraw\<close> runs.
  \<open>Savings m\<close> carries \<^verbatim>\<open>min_balance\<close>, \<open>Premium l f\<close> carries
  \<^verbatim>\<open>overdraft_limit\<close> and \<^verbatim>\<open>withdraw_fee_fixed\<close>.
\<close>

datatype account_class = Bank | Savings rat | Premium rat rat | Investment

record account =
  acc_id :: string
  owner_name :: string
  balance :: rat
  acc_status :: AccountStatus
  acc_currency :: Currency
  acc_class :: account_class

text \<open>
  The sender and the recipient of a transaction are typed \<^verbatim>\<open>Optional[object]\<close>:
  an object that is no account (\<open>PlainObject\<close>, Python's \<^verbatim>\<open>object()\<close>) has none
  of the attributes the processor reads.
\<close>

datatype obj = Account account | PlainObject

definition ensure_active :: "account \<Rightarrow> exn option" where
  "ensure_active a =
     (if acc_status a = FROZEN then Some (AccountFrozenError ''Account is frozen. Operation forbidden.'')
      else if acc_status a = CLOSED then Some (AccountClosedError ''Account is closed. Operation forbidden.'')
      else None)"

definition validate_amount :: "rat \<Rightarrow> exn + rat" where
  "validate_amount amount =
     (if amount \<le> 0 then Inl (InvalidOperationError ''Amount must be positive and greater than zero.'')
      else Inr amount)"

definition deposit :: "account \<Rightarrow> rat \<Rightarrow> exn + account" where
  "deposit a amount =
     (case ensure_active a of
        Some e \<Rightarrow> Inl e
      | None \<Rightarrow>
          (case validate_amount amount of
             Inl e \<Rightarrow> Inl e
           | Inr v \<Rightarrow> Inr (a\<lparr>balance := balance a + v\<rparr>)))"

definition bank_withdraw :: "account \<Rightarrow> rat \<Rightarrow> exn + account" where
  "bank_withdraw a amount =
     (case ensure_active a of
        Some e \<Rightarrow> Inl e
      | None \<Rightarrow>
          (case validate_amount amount of
             Inl e \<Rightarrow> Inl e
           | Inr v \<Rightarrow>
               if v > balance a then Inl (InsufficientFundsError ''Insufficient funds.'')
               else Inr (a\<lparr>balance := balance a - v\<rparr>)))"

definition savings_withdraw :: "rat \<Rightarrow> account \<Rightarrow> rat \<Rightarrow> exn + account" where
  "savings_withdraw min_balance a amount =
     (case validate_amount amount of
        Inl e \<Rightarrow> Inl e
      | Inr v \<Rightarrow>
          (case ensure_active a of
             Some e \<Rightarrow> Inl e
           | None \<Rightarrow>
               if balance a - v < min_balance
               then Inl (InsufficientFundsError ''Cannot go below the minimum balance.'')
               else Inr (a\<lparr>balance := balance a - v\<rparr>)))"

definition premium_withdraw :: "rat \<Rightarrow> rat \<Rightarrow> account \<Rightarrow> rat \<Rightarrow> exn + account" where
  "premium_withdraw overdraft_limit withdraw_fee_fixed a amount =
     (case ensure_active a of
        Some e \<Rightarrow> Inl e
      | None \<Rightarrow>
          (case validate_amount amount of
             Inl e \<Rightarrow> Inl e
           | Inr v \<Rightarrow>
               (let total_debit = v + withdraw_fee_fixed in
                if balance a - total_debit < - overdraft_limit
                then Inl (InsufficientFundsError ''Overdraft limit exceeded.'')
                else Inr (a\<lparr>balance := balance a - total_debit\<rparr>))))"

text \<open>Dynamic dispatch of \<^verbatim>\<open>withdraw\<close> on the class of the account.\<close>

definition withdraw :: "account \<Rightarrow> rat \<Rightarrow> exn + account" where
  "withdraw a amount =
     (case acc_class a of
        Bank \<Rightarrow> bank_withdraw a amount
      | Investment \<Rightarrow> bank_withdraw a amount
      | Savings m \<Rightarrow> savings_withdraw m a amount
      | Premium l f \<Rightarrow> premium_withdraw l f a amount)"

subsection \<open>Transactions\<close>

datatype TransactionType = TRANSFER

datatype TransactionStatus = PENDING | CANCELLED | PROCESSED | FAILED

record Transaction =
  tx_id :: string
  tx_type :: TransactionType
  amount :: rat
  currency :: Currency
  sender :: "ref option"
  recipient :: "ref option"
  fee_fixed :: rat
  scheduled_at :: datetime
  priority :: int
  is_external :: bool
  status :: TransactionStatus
  failure_reason :: "string option"
  created_at :: datetime
  processed_at :: "datetime option"
  updated_at :: datetime
  attempts :: int

definition mark_failed :: "datetime \<Rightarrow> Transaction \<Rightarrow> string \<Rightarrow> Transaction" where
  "mark_failed clock tx reason =
     tx\<lparr>status := FAILED, failure_reason := Some reason, updated_at := clock\<rparr>"

definition mark_processed :: "datetime \<Rightarrow> Transaction \<Rightarrow> Transaction" where
  "mark_processed clock tx =
     tx\<lparr>status := PROCESSED, failure_reason := None, processed_at := Some clock,
        updated_at := clock\<rparr>"

definition Transaction_cancel :: "datetime \<Rightarrow> Transaction \<Rightarrow> string \<Rightarrow> Transaction" where
  "Transaction_cancel clock tx reason =
     tx\<lparr>status := CANCELLED, failure_reason := Some reason, updated_at := clock\<rparr>"

subsection \<open>The transaction queue\<close>

text \<open>
  \<^verbatim>\<open>_QueueItem\<close> is a dataclass with \<^verbatim>\<open>order=True\<close>: two items compare as the
  tuples \<^verbatim>\<open>(scheduled_at, neg_priority, order)\<close>; \<^verbatim>\<open>tx_id\<close> takes no part.
\<close>

record QueueItem =
  qi_scheduled_at :: datetime
  neg_priority :: int
  qi_order :: int
  qi_tx_id :: string

definition item_lt :: "QueueItem \<Rightarrow> QueueItem \<Rightarrow> bool" where
  "item_lt a b =
     (qi_scheduled_at a < qi_scheduled_at b \<or>
      (qi_scheduled_at a = qi_scheduled_at b \<and>
       (neg_priority a < neg_priority b \<or>
        (neg_priority a = neg_priority b \<and> qi_order a < qi_order b))))"

text \<open>
  The heap is the list \<^verbatim>\<open>_heap\<close> under Python's \<^verbatim>\<open>heapq\<close>. The queue reads it
  only through \<^verbatim>\<open>heap[0]\<close>, the least item, and \<^verbatim>\<open>heappop\<close>, which removes the
  least item; the model keeps the list in ascending order, so that the least item is the
  head. \<open>heappush\<close> inserts behind the items that are not greater. In a queue built by
  \<open>add\<close> and \<open>requeue\<close> all order numbers differ, so no two items compare equal and the
  least item is the one \<^verbatim>\<open>heapq\<close> yields.
\<close>

fun heappush :: "QueueItem list \<Rightarrow> QueueItem \<Rightarrow> QueueItem list" where
  "heappush [] x = [x]"
| "heappush (y # ys) x = (if item_lt x y then x # y # ys else y # heappush ys x)"

type_synonym tx_store = "ref \<Rightarrow> Transaction"

record TransactionQueue =
  heap :: "QueueItem list"
  items :: "string \<rightharpoonup> ref"
  order_seq :: int

definition empty_queue :: TransactionQueue where
  "empty_queue = \<lparr>heap = [], items = Map.empty, order_seq = 0\<rparr>"

definition add :: "tx_store \<Rightarrow> TransactionQueue \<Rightarrow> ref \<Rightarrow> exn + TransactionQueue" where
  "add txs q r =
     (let tx = txs r in
      if items q (tx_id tx) \<noteq> None
      then Inl (ValueError ''A transaction with this id is already in the queue.'')
      else
        (let seq = order_seq q + 1;
             item = \<lparr>qi_scheduled_at = scheduled_at tx, neg_priority = - priority tx,
                     qi_order = seq, qi_tx_id = tx_id tx\<rparr>
         in Inr (q\<lparr>items := (items q)(tx_id tx \<mapsto> r), order_seq := seq,
                   heap := heappush (heap q) item\<rparr>)))"

definition cancel ::
  "datetime \<Rightarrow> tx_store \<Rightarrow> TransactionQueue \<Rightarrow> string \<Rightarrow> string \<Rightarrow> bool \<times> tx_store" where
  "cancel clock txs q tid reason =
     (case items q tid of
        None \<Rightarrow> (False, txs)
      | Some r \<Rightarrow>
          if status (txs r) = PROCESSED \<or> status (txs r) = CANCELLED then (False, txs)
          else (True, txs(r := Transaction_cancel clock (txs r) reason)))"

text \<open>
  The loop of \<^verbatim>\<open>pop_ready\<close>, by recursion on the heap: the head is the root. The
  result is the transaction returned (by reference) and the heap that is left.
\<close>

fun pop_loop ::
  "datetime \<Rightarrow> tx_store \<Rightarrow> (string \<rightharpoonup> ref) \<Rightarrow> QueueItem list \<Rightarrow> ref option \<times> QueueItem list" where
  "pop_loop now txs its [] = (None, [])"
| "pop_loop now txs its (top_item # rest) =
     (if qi_scheduled_at top_item > now then (None, top_item # rest)
      else
        (case its (qi_tx_id top_item) of
           None \<Rightarrow> pop_loop now txs its rest
         | Some r \<Rightarrow>
             if status (txs r) \<noteq> PENDING then pop_loop now txs its rest
             else (Some r, rest)))"

text \<open>\<^verbatim>\<open>now = now or datetime.now(timezone.utc)\<close>: a datetime is never falsy.\<close>

definition now_or :: "datetime \<Rightarrow> datetime option \<Rightarrow> datetime" where
  "now_or clock now = (case now of None \<Rightarrow> clock | Some t \<Rightarrow> t)"

definition pop_ready ::
  "datetime \<Rightarrow> tx_store \<Rightarrow> TransactionQueue \<Rightarrow> datetime option \<Rightarrow> ref option \<times> TransactionQueue" where
  "pop_ready clock txs q now =
     (let (res, h) = pop_loop (now_or clock now) txs (items q) (heap q)
      in (res, q\<lparr>heap := h\<rparr>))"

definition requeue ::
  "datetime \<Rightarrow> tx_store \<Rightarrow> TransactionQueue \<Rightarrow> ref \<Rightarrow> int \<Rightarrow> tx_store \<times> TransactionQueue" where
  "requeue clock txs q r delay_seconds =
     (let tx = txs r in
      if status tx \<noteq> PENDING then (txs, q)
      else
        (let tx1 = (if delay_seconds > 0
                    then tx\<lparr>scheduled_at := clock + timedelta_seconds delay_seconds\<rparr>
                    else tx);
             seq = order_seq q + 1;
             item = \<lparr>qi_scheduled_at = scheduled_at tx1, neg_priority = - priority tx1,
                     qi_order = seq, qi_tx_id = tx_id tx1\<rparr>
         in (txs(r := tx1), q\<lparr>order_seq := seq, heap := heappush (heap q) item\<rparr>)))"

text \<open>
  Two notions for stating properties of the queue. \<open>heap_ordered\<close> is the heap invariant
  in the list representation: no item is followed by a smaller one. An item is \<open>live\<close>
  when the id map knows its id and the transaction found there is pending; the other items
  are the stale ones that \<^verbatim>\<open>pop_ready\<close> discards.
\<close>

definition heap_ordered :: "QueueItem list \<Rightarrow> bool" where
  "heap_ordered h = sorted_wrt (\<lambda>a b. \<not> item_lt b a) h"

definition live :: "tx_store \<Rightarrow> (string \<rightharpoonup> ref) \<Rightarrow> QueueItem \<Rightarrow> bool" where
  "live txs its e =
     (case its (qi_tx_id e) of None \<Rightarrow> False | Some r \<Rightarrow> status (txs r) = PENDING)"

subsection \<open>Risk analyzer and audit log\<close>

datatype AuditLevel = INFO | WARNING | ERROR

datatype RiskLevel = LOW | MEDIUM | HIGH

fun RiskLevel_value :: "RiskLevel \<Rightarrow> string" where
  "RiskLevel_value LOW = ''low''"
| "RiskLevel_value MEDIUM = ''medium''"
| "RiskLevel_value HIGH = ''high''"

fun Currency_value :: "Currency \<Rightarrow> string" where
  "Currency_value RUB = ''RUB''"
| "Currency_value USD = ''USD''"
| "Currency_value EUR = ''EUR''"
| "Currency_value KZT = ''KZT''"
| "Currency_value CNY = ''CNY''"

text \<open>
  \<^verbatim>\<open>night_from\<close> and \<^verbatim>\<open>night_to\<close> are times of day, in microseconds since midnight.
\<close>

record RiskConfig =
  large_amount_threshold :: "Currency \<rightharpoonup> rat"
  frequency_window_seconds :: int
  frequency_limit :: int
  night_from :: int
  night_to :: int


record RiskAnalyzer =
  ra_config :: RiskConfig
  history :: "string \<rightharpoonup> datetime list"
  known_recipients :: "string \<rightharpoonup> string set"


type_synonym obj_store = "ref \<Rightarrow> obj"

text \<open>
  \<^verbatim>\<open>_account_id\<close> and \<^verbatim>\<open>_owner_name\<close> read an attribute and fall back to the empty
  string: \<^verbatim>\<open>None\<close> and a plain object have neither \<^verbatim>\<open>id\<close> nor \<^verbatim>\<open>owner\<close>.
\<close>

definition account_id :: "obj_store \<Rightarrow> ref option \<Rightarrow> string" where
  "account_id objs ob =
     (case ob of
        None \<Rightarrow> []
      | Some r \<Rightarrow> (case objs r of Account a \<Rightarrow> acc_id a | PlainObject \<Rightarrow> []))"

definition get_owner_name :: "obj_store \<Rightarrow> ref option \<Rightarrow> string" where
  "get_owner_name objs ob =
     (case ob of
        None \<Rightarrow> []
      | Some r \<Rightarrow> (case objs r of Account a \<Rightarrow> owner_name a | PlainObject \<Rightarrow> []))"

definition is_night :: "RiskConfig \<Rightarrow> datetime \<Rightarrow> bool" where
  "is_night cfg dt =
     (let t = dt mod (24 * 3600 * 1000000) in night_from cfg \<le> t \<and> t < night_to cfg)"

fun join :: "string \<Rightarrow> string list \<Rightarrow> string" where
  "join sep [] = []"
| "join sep [x] = x"
| "join sep (x # y # ys) = x @ sep @ join sep (y # ys)"

record risk_extra =
  ex_sender_id :: string
  ex_recipient_id :: string
  ex_owner_name :: string
  ex_amount :: rat
  ex_currency :: string
  ex_reasons :: string
  ex_risk_level :: string

text \<open>
  The four rules of \<^verbatim>\<open>assess\<close>, in the order of the source. Each takes the level and
  the reasons collected so far; the second and the third also update the analyzer's tables.
\<close>

definition large_amount_rule ::
  "RiskConfig \<Rightarrow> rat \<Rightarrow> Currency \<Rightarrow> RiskLevel \<times> string list \<Rightarrow> RiskLevel \<times> string list" where
  "large_amount_rule cfg amt cur lr =
     (case large_amount_threshold cfg cur of
        None \<Rightarrow> lr
      | Some threshold \<Rightarrow> if amt \<ge> threshold then (HIGH, snd lr @ [''large amount'']) else lr)"

definition frequency_rule ::
  "RiskConfig \<Rightarrow> string \<Rightarrow> datetime \<Rightarrow> (string \<rightharpoonup> datetime list) \<Rightarrow> RiskLevel \<times> string list
     \<Rightarrow> (RiskLevel \<times> string list) \<times> (string \<rightharpoonup> datetime list)" where
  "frequency_rule cfg sender_id now hs lr =
     (if sender_id \<noteq> [] then
        (let hist = (case hs sender_id of None \<Rightarrow> [] | Some h \<Rightarrow> h);
             window = timedelta_seconds (frequency_window_seconds cfg);
             cutoff = now - window;
             hist1 = filter (\<lambda>ts. ts \<ge> cutoff) hist @ [now]
         in ((if int (length hist1) \<ge> frequency_limit cfg
              then (HIGH, snd lr @ [''frequent operations''])
              else lr),
             hs(sender_id \<mapsto> hist1)))
      else (lr, hs))"

definition new_recipient_rule ::
  "string \<Rightarrow> string \<Rightarrow> (string \<rightharpoonup> string set) \<Rightarrow> RiskLevel \<times> string list
     \<Rightarrow> (RiskLevel \<times> string list) \<times> (string \<rightharpoonup> string set)" where
  "new_recipient_rule sender_id rec_id kr lr =
     (if sender_id \<noteq> [] then
        (let known = (case kr sender_id of None \<Rightarrow> {} | Some k \<Rightarrow> k) in
         if rec_id \<noteq> [] \<and> rec_id \<notin> known
         then ((if fst lr = LOW then MEDIUM else fst lr, snd lr @ [''transfer to a new account'']),
               kr(sender_id \<mapsto> insert rec_id known))
         else (lr, kr(sender_id \<mapsto> known)))
      else (lr, kr))"

definition night_rule ::
  "RiskConfig \<Rightarrow> datetime \<Rightarrow> RiskLevel \<times> string list \<Rightarrow> RiskLevel \<times> string list" where
  "night_rule cfg now lr =
     (if is_night cfg now
      then (if fst lr = LOW then MEDIUM else fst lr, snd lr @ [''night operation''])
      else lr)"

definition assess ::
  "datetime \<Rightarrow> obj_store \<Rightarrow> RiskAnalyzer \<Rightarrow> rat \<Rightarrow> Currency \<Rightarrow> ref option \<Rightarrow> ref option
     \<Rightarrow> datetime option \<Rightarrow> (RiskLevel \<times> string list \<times> risk_extra) \<times> RiskAnalyzer" where
  "assess clock objs ra amt cur snd_ob rcp_ob now_arg =
     (let now = now_or clock now_arg;
          cfg = ra_config ra;
          lr1 = large_amount_rule cfg amt cur (LOW, []);
          sender_id = account_id objs snd_ob;
          (lr2, hs) = frequency_rule cfg sender_id now (history ra) lr1;
          (lr3, kr) = new_recipient_rule sender_id (account_id objs rcp_ob) (known_recipients ra) lr2;
          lr4 = night_rule cfg now lr3;
          lvl = fst lr4;
          reasons = snd lr4;
          extra = \<lparr>ex_sender_id = sender_id,
                   ex_recipient_id = account_id objs rcp_ob,
                   ex_owner_name =
                     (if get_owner_name objs snd_ob \<noteq> [] then get_owner_name objs snd_ob
                      else get_owner_name objs rcp_ob),
                   ex_amount = amt,
                   ex_currency = Currency_value cur,
                   ex_reasons = join '', '' reasons,
                   ex_risk_level = RiskLevel_value lvl\<rparr>
      in ((lvl, reasons, extra), ra\<lparr>history := hs, known_recipients := kr\<rparr>))"


text \<open>
  An audit record as the processor writes it: the keyword arguments are \<^verbatim>\<open>tx_id\<close> and
  the entries of the analyzer's \<^verbatim>\<open>extra\<close> dictionary.
\<close>

record AuditRecord =
  level :: AuditLevel
  message :: string
  timestamp :: datetime
  extra_tx_id :: string
  extra :: risk_extra

type_synonym AuditLog = "AuditRecord list"

definition AuditLog_add ::
  "datetime \<Rightarrow> AuditLog \<Rightarrow> AuditLevel \<Rightarrow> string \<Rightarrow> string \<Rightarrow> risk_extra \<Rightarrow> AuditLog" where
  "AuditLog_add clock records lvl msg tid ex =
     records @ [\<lparr>level = lvl, message = msg, timestamp = clock, extra_tx_id = tid, extra = ex\<rparr>]"

subsection \<open>The transaction processor\<close>

text \<open>The rate table is a dictionary from ordered currency pairs to coefficients.\<close>

record ProcessorConfig =
  external_fee_fixed :: rat
  max_retries :: int
  rates :: "((Currency \<times> Currency) \<times> rat) list"

definition default_ProcessorConfig :: ProcessorConfig where
  "default_ProcessorConfig = \<lparr>external_fee_fixed = 1, max_retries = 2, rates = []\<rparr>"

definition base_rates :: "(Currency \<times> rat) list" where
  "base_rates = [(RUB, 1), (USD, 100), (EUR, 110), (KZT, 21 / 100), (CNY, 14)]"

definition default_rates :: "((Currency \<times> Currency) \<times> rat) list" where
  "default_rates =
     concat (map (\<lambda>(a, ra). concat (map (\<lambda>(b, rb). if a = b then [] else [((a, b), ra / rb)])
                                        base_rates))
                 base_rates)"

definition convert :: "ProcessorConfig \<Rightarrow> rat \<Rightarrow> Currency \<Rightarrow> Currency \<Rightarrow> exn + rat" where
  "convert cfg amt cur_from cur_to =
     (if cur_from = cur_to then Inr amt
      else
        (case map_of (rates cfg) (cur_from, cur_to) of
           None \<Rightarrow> Inl (InvalidOperationError ''No rate for the currency conversion.'')
         | Some rate \<Rightarrow> Inr (amt * rate)))"

text \<open>The exception classes of the first \<^verbatim>\<open>except\<close> clause of \<^verbatim>\<open>process_next\<close>.\<close>

fun is_terminal :: "exn \<Rightarrow> bool" where
  "is_terminal (AccountFrozenError m) = True"
| "is_terminal (AccountClosedError m) = True"
| "is_terminal (InsufficientFundsError m) = True"
| "is_terminal (InvalidOperationError m) = True"
| "is_terminal (AttributeError m) = False"
| "is_terminal (ValueError m) = False"

text \<open>Reading an attribute of the object behind a reference.\<close>

definition no_attribute :: "string \<Rightarrow> exn" where
  "no_attribute name = AttributeError (''object has no attribute '' @ name)"

definition ensure_account_active :: "obj_store \<Rightarrow> ref option \<Rightarrow> exn option" where
  "ensure_account_active objs acc =
     (case acc of
        None \<Rightarrow> None
      | Some r \<Rightarrow>
          (case objs r of
             PlainObject \<Rightarrow> Some (no_attribute ''status'')
           | Account a \<Rightarrow>
               if acc_status a = FROZEN \<or> acc_status a = CLOSED then
                 (if acc_status a = FROZEN then Some (AccountFrozenError ''Account is frozen.'')
                  else Some (AccountClosedError ''Account is closed.''))
               else None))"

definition obj_withdraw :: "obj_store \<Rightarrow> ref \<Rightarrow> rat \<Rightarrow> exn + obj_store" where
  "obj_withdraw objs r v =
     (case objs r of
        PlainObject \<Rightarrow> Inl (no_attribute ''withdraw'')
      | Account a \<Rightarrow>
          (case withdraw a v of Inl e \<Rightarrow> Inl e | Inr a1 \<Rightarrow> Inr (objs(r := Account a1))))"

definition obj_deposit :: "obj_store \<Rightarrow> ref \<Rightarrow> rat \<Rightarrow> exn + obj_store" where
  "obj_deposit objs r v =
     (case objs r of
        PlainObject \<Rightarrow> Inl (no_attribute ''deposit'')
      | Account a \<Rightarrow>
          (case deposit a v of Inl e \<Rightarrow> Inl e | Inr a1 \<Rightarrow> Inr (objs(r := Account a1))))"

text \<open>
  An exception leaves the objects as they are when it is raised: a function that can fail
  after a mutation returns the store it has reached together with the exception, if any.
\<close>

definition is_premium :: "account \<Rightarrow> bool" where
  "is_premium a = (case acc_class a of Premium l f \<Rightarrow> True | _ \<Rightarrow> False)"

text \<open>The amounts to debit of an internal transfer, in the sender's currency.\<close>

definition debit_amounts ::
  "ProcessorConfig \<Rightarrow> Transaction \<Rightarrow> rat \<Rightarrow> rat \<Rightarrow> account \<Rightarrow> exn + rat \<times> rat" where
  "debit_amounts cfg tx amt fee_total sa =
     (if currency tx \<noteq> acc_currency sa then
        (case convert cfg amt (currency tx) (acc_currency sa) of
           Inl e \<Rightarrow> Inl e
         | Inr debit_amount \<Rightarrow>
             if fee_total > 0 then
               (case convert cfg fee_total (currency tx) (acc_currency sa) of
                  Inl e \<Rightarrow> Inl e
                | Inr debit_fee \<Rightarrow> Inr (debit_amount, debit_fee))
             else Inr (debit_amount, 0))
      else Inr (amt, fee_total))"

text \<open>The two withdrawals, the principal and then the fee, that both branches perform.\<close>

definition withdraw_principal_then_fee ::
  "obj_store \<Rightarrow> ref \<Rightarrow> rat \<Rightarrow> rat \<Rightarrow> obj_store \<times> exn option" where
  "withdraw_principal_then_fee objs s debit_amount debit_fee =
     (case obj_withdraw objs s debit_amount of
        Inl e \<Rightarrow> (objs, Some e)
      | Inr objs1 \<Rightarrow>
          if debit_fee > 0 then
            (case obj_withdraw objs1 s debit_fee of
               Inl e \<Rightarrow> (objs1, Some e)
             | Inr objs2 \<Rightarrow> (objs2, None))
          else (objs1, None))"

definition internal_debit ::
  "ProcessorConfig \<Rightarrow> obj_store \<Rightarrow> Transaction \<Rightarrow> rat \<Rightarrow> rat \<Rightarrow> ref \<Rightarrow> obj_store \<times> exn option" where
  "internal_debit cfg objs tx amt fee_total s =
     (case objs s of
        PlainObject \<Rightarrow> (objs, Some (no_attribute ''currency''))
      | Account sa \<Rightarrow>
          (case debit_amounts cfg tx amt fee_total sa of
             Inl e \<Rightarrow> (objs, Some e)
           | Inr (debit_amount, debit_fee) \<Rightarrow>
               (let total_debit = debit_amount + debit_fee in
                if is_premium sa then withdraw_principal_then_fee objs s debit_amount debit_fee
                else if total_debit > balance sa
                then (objs, Some (InsufficientFundsError ''Insufficient funds for the transfer.''))
                else withdraw_principal_then_fee objs s debit_amount debit_fee)))"

text \<open>Conversion to the currency of the account behind \<open>r\<close> if it differs, then deposit.\<close>

definition convert_and_deposit ::
  "ProcessorConfig \<Rightarrow> obj_store \<Rightarrow> Transaction \<Rightarrow> rat \<Rightarrow> ref \<Rightarrow> obj_store \<times> exn option" where
  "convert_and_deposit cfg objs tx credit r =
     (case objs r of
        PlainObject \<Rightarrow> (objs, Some (no_attribute ''currency''))
      | Account ra \<Rightarrow>
          (case (if currency tx \<noteq> acc_currency ra
                 then convert cfg credit (currency tx) (acc_currency ra)
                 else Inr credit) of
             Inl e \<Rightarrow> (objs, Some e)
           | Inr credit_amount \<Rightarrow>
               (case obj_deposit objs r credit_amount of
                  Inl e \<Rightarrow> (objs, Some e)
                | Inr objs1 \<Rightarrow> (objs1, None))))"

definition external_credit ::
  "ProcessorConfig \<Rightarrow> obj_store \<Rightarrow> Transaction \<Rightarrow> rat \<Rightarrow> rat \<Rightarrow> ref \<Rightarrow> obj_store \<times> exn option" where
  "external_credit cfg objs tx amt fee_total r =
     (let credit_amount = amt - fee_total in
      if credit_amount \<le> 0
      then (objs, Some (InvalidOperationError ''Amount after the fee must be positive.''))
      else convert_and_deposit cfg objs tx credit_amount r)"

definition external_debit ::
  "ProcessorConfig \<Rightarrow> obj_store \<Rightarrow> Transaction \<Rightarrow> rat \<Rightarrow> rat \<Rightarrow> ref \<Rightarrow> obj_store \<times> exn option" where
  "external_debit cfg objs tx amt fee_total s =
     (case objs s of
        PlainObject \<Rightarrow> (objs, Some (no_attribute ''currency''))
      | Account sa \<Rightarrow>
          (case (if currency tx \<noteq> acc_currency sa
                 then convert cfg (amt + fee_total) (currency tx) (acc_currency sa)
                 else Inr (amt + fee_total)) of
             Inl e \<Rightarrow> (objs, Some e)
           | Inr debit_amount \<Rightarrow>
               (case obj_withdraw objs s debit_amount of
                  Inl e \<Rightarrow> (objs, Some e)
                | Inr objs1 \<Rightarrow> (objs1, None))))"

definition process_transaction ::
  "ProcessorConfig \<Rightarrow> obj_store \<Rightarrow> Transaction \<Rightarrow> obj_store \<times> exn option" where
  "process_transaction cfg objs tx =
     (if tx_type tx \<noteq> TRANSFER
      then (objs, Some (InvalidOperationError ''Unsupported transaction type.''))
      else if amount tx \<le> 0
      then (objs, Some (InvalidOperationError ''Amount must be positive.''))
      else
        (let fee_total = fee_fixed tx + (if is_external tx then external_fee_fixed cfg else 0) in
         case ensure_account_active objs (sender tx) of
           Some e \<Rightarrow> (objs, Some e)
         | None \<Rightarrow>
             (case ensure_account_active objs (recipient tx) of
                Some e \<Rightarrow> (objs, Some e)
              | None \<Rightarrow>
                  (case (sender tx, recipient tx) of
                     (Some s, Some r) \<Rightarrow>
                       (case internal_debit cfg objs tx (amount tx) fee_total s of
                          (objs1, Some e) \<Rightarrow> (objs1, Some e)
                        | (objs1, None) \<Rightarrow> convert_and_deposit cfg objs1 tx (amount tx) r)
                   | (None, Some r) \<Rightarrow> external_credit cfg objs tx (amount tx) fee_total r
                   | (Some s, None) \<Rightarrow> external_debit cfg objs tx (amount tx) fee_total s
                   | (None, None) \<Rightarrow>
                       (objs, Some (InvalidOperationError
                          ''Invalid transaction configuration (no sender and no recipient).''))))))"

text \<open>
  The processor with everything it reaches: the transaction and account objects, its queue,
  its configuration, the error log, and the optional audit log and risk analyzer.
\<close>

record state =
  st_txs :: tx_store
  st_objs :: obj_store
  st_queue :: TransactionQueue
  st_config :: ProcessorConfig
  error_log :: "string list"
  audit_log :: "AuditLog option"
  risk_analyzer :: "RiskAnalyzer option"

definition TransactionProcessor_init ::
  "tx_store \<Rightarrow> obj_store \<Rightarrow> TransactionQueue \<Rightarrow> ProcessorConfig option \<Rightarrow> AuditLog option
     \<Rightarrow> RiskAnalyzer option \<Rightarrow> state" where
  "TransactionProcessor_init txs objs q cfg audit risk =
     (let c = (case cfg of None \<Rightarrow> default_ProcessorConfig | Some c \<Rightarrow> c);
          c1 = (if rates c = [] then c\<lparr>rates := default_rates\<rparr> else c)
      in \<lparr>st_txs = txs, st_objs = objs, st_queue = q, st_config = c1, error_log = [],
          audit_log = audit, risk_analyzer = risk\<rparr>)"

text \<open>
  The risk stage of \<^verbatim>\<open>process_next\<close>: the assessment, the audit record, and the
  reason of the block when the level is high.
\<close>

definition audit_level_of :: "RiskLevel \<Rightarrow> AuditLevel" where
  "audit_level_of lvl = (if lvl = HIGH then ERROR else if lvl = MEDIUM then WARNING else INFO)"

definition risk_stage ::
  "datetime \<Rightarrow> state \<Rightarrow> Transaction \<Rightarrow> datetime option \<Rightarrow> string option \<times> state" where
  "risk_stage clock st tx now =
     (case risk_analyzer st of
        None \<Rightarrow> (None, st)
      | Some ra \<Rightarrow>
          (let ((lvl, reasons, ex), ra1) =
                 assess clock (st_objs st) ra (amount tx) (currency tx) (sender tx) (recipient tx) now;
               audit1 =
                 (case audit_log st of
                    None \<Rightarrow> None
                  | Some records \<Rightarrow>
                      Some (AuditLog_add clock records (audit_level_of lvl)
                              (''risk assessment: '' @ RiskLevel_value lvl) (tx_id tx) ex));
               st1 = st\<lparr>risk_analyzer := Some ra1, audit_log := audit1\<rparr>
           in if lvl = HIGH
              then (Some (''Operation blocked by the risk service'' @
                            (if reasons \<noteq> [] then '': '' @ join '', '' reasons else [])),
                    st1)
              else (None, st1)))"

text \<open>
  The \<^verbatim>\<open>try\<close> statement of \<^verbatim>\<open>process_next\<close> for the transaction behind \<open>r\<close>.
\<close>

definition execute :: "datetime \<Rightarrow> state \<Rightarrow> ref \<Rightarrow> bool \<times> state" where
  "execute clock st r =
     (let tx = st_txs st r;
          (objs1, err) = process_transaction (st_config st) (st_objs st) tx;
          st1 = st\<lparr>st_objs := objs1\<rparr>
      in case err of
           None \<Rightarrow> (True, st1\<lparr>st_txs := (st_txs st1)(r := mark_processed clock tx)\<rparr>)
         | Some e \<Rightarrow>
             if is_terminal e then
               (True, st1\<lparr>st_txs := (st_txs st1)(r := mark_failed clock tx (exn_str e)),
                          error_log := error_log st1 @
                            [tx_id tx @ '': '' @ exn_type_name e @ '': '' @ exn_str e]\<rparr>)
             else
               (let tx1 = tx\<lparr>attempts := attempts tx + 1\<rparr> in
                if attempts tx1 > max_retries (st_config st) then
                  (True, st1\<lparr>st_txs := (st_txs st1)
                                (r := mark_failed clock tx1 (''temporary_error: '' @ exn_str e)),
                             error_log := error_log st1 @
                               [tx_id tx1 @ '': temporary_error: '' @ exn_str e]\<rparr>)
                else
                  (let delay = 1 * attempts tx1;
                       tx2 = tx1\<lparr>updated_at := clock\<rparr>;
                       (txs1, q1) = requeue clock ((st_txs st1)(r := tx2)) (st_queue st1) r delay
                   in (True, st1\<lparr>st_txs := txs1, st_queue := q1\<rparr>))))"

definition process_next :: "datetime \<Rightarrow> state \<Rightarrow> datetime option \<Rightarrow> bool \<times> state" where
  "process_next clock st now =
     (let (res, q1) = pop_ready clock (st_txs st) (st_queue st) now;
          st1 = st\<lparr>st_queue := q1\<rparr>
      in case res of
           None \<Rightarrow> (False, st1)
         | Some r \<Rightarrow>
             (case risk_stage clock st1 (st_txs st1 r) now of
                (Some reason, st2) \<Rightarrow>
                  (True, st2\<lparr>st_txs := (st_txs st2)(r := mark_failed clock (st_txs st2 r) reason)\<rparr>)
              | (None, st2) \<Rightarrow> execute clock st2 r))"

subsection \<open>Sequences of operations\<close>

text \<open>
  The operations a caller can apply to the queue and the processor. A call that raises
  (\<open>add\<close> of a known id) leaves the state as it is.
\<close>

datatype op =
    Add ref
  | Cancel string string
  | PopReady "datetime option"
  | Requeue ref int
  | ProcessNext "datetime option"

fun step :: "state \<Rightarrow> datetime \<times> op \<Rightarrow> state" where
  "step st (clock, Add r) =
     (case add (st_txs st) (st_queue st) r of
        Inl e \<Rightarrow> st
      | Inr q \<Rightarrow> st\<lparr>st_queue := q\<rparr>)"
| "step st (clock, Cancel tid reason) =
     st\<lparr>st_txs := snd (cancel clock (st_txs st) (st_queue st) tid reason)\<rparr>"
| "step st (clock, PopReady now) =
     st\<lparr>st_queue := snd (pop_ready clock (st_txs st) (st_queue st) now)\<rparr>"
| "step st (clock, Requeue r delay) =
     (let (txs1, q1) = requeue clock (st_txs st) (st_queue st) r delay
      in st\<lparr>st_txs := txs1, st_queue := q1\<rparr>)"
| "step st (clock, ProcessNext now) = snd (process_next clock st now)"

definition run :: "state \<Rightarrow> (datetime \<times> op) list \<Rightarrow> state" where
  "run st ops = foldl step st ops"

section \<open>Example objects\<close>

text \<open>
  The dataclass constructor of \<^verbatim>\<open>Transaction\<close> with its defaults, and a small world
  in the style of the repository's tests: accounts A, B, a premium account P and a frozen
  account F behind the references 0 to 3, and a premium account Q with 1000 RUB behind 4;
  every other reference holds a plain object.
\<close>

definition new_Transaction ::
  "datetime \<Rightarrow> string \<Rightarrow> rat \<Rightarrow> Currency \<Rightarrow> ref option \<Rightarrow> ref option \<Rightarrow> rat \<Rightarrow> datetime \<Rightarrow> int
     \<Rightarrow> bool \<Rightarrow> Transaction" where
  "new_Transaction clock tid amt cur s r fee sched prio ext =
     \<lparr>tx_id = tid, tx_type = TRANSFER, amount = amt, currency = cur, sender = s, recipient = r,
      fee_fixed = fee, scheduled_at = sched, priority = prio, is_external = ext,
      status = PENDING, failure_reason = None, created_at = clock, processed_at = None,
      updated_at = clock, attempts = 0\<rparr>"

definition acc_A :: account where
  "acc_A = \<lparr>acc_id = ''A'', owner_name = ''Alice'', balance = 1000, acc_status = ACTIVE,
            acc_currency = RUB, acc_class = Bank\<rparr>"

definition acc_B :: account where
  "acc_B = \<lparr>acc_id = ''B'', owner_name = ''Bob'', balance = 0, acc_status = ACTIVE,
            acc_currency = USD, acc_class = Bank\<rparr>"

definition acc_P :: account where
  "acc_P = \<lparr>acc_id = ''P'', owner_name = ''Premium'', balance = 0, acc_status = ACTIVE,
            acc_currency = RUB, acc_class = Premium 100 5\<rparr>"

definition acc_F :: account where
  "acc_F = \<lparr>acc_id = ''F'', owner_name = ''Frozen'', balance = 100, acc_status = FROZEN,
            acc_currency = RUB, acc_class = Bank\<rparr>"

definition acc_Q :: account where
  "acc_Q = \<lparr>acc_id = ''Q'', owner_name = ''Quentin'', balance = 1000, acc_status = ACTIVE,
            acc_currency = RUB, acc_class = Premium 100 5\<rparr>"

definition ex_objs :: obj_store where
  "ex_objs = (\<lambda>_. PlainObject)
     (0 := Account acc_A, 1 := Account acc_B, 2 := Account acc_P, 3 := Account acc_F,
      4 := Account acc_Q)"

definition ex_txs :: tx_store where
  "ex_txs = (\<lambda>_. new_Transaction 0 ''none'' 10 RUB None None 0 0 0 False)
     (0 := new_Transaction 0 ''t1'' 100 RUB (Some 0) (Some 1) 0 0 10 False,
      1 := new_Transaction 0 ''t2'' 1 RUB None (Some 3) 2 0 9 False,
      2 := new_Transaction 0 ''t3'' 50 RUB (Some 2) (Some 0) 2 0 8 False,
      3 := new_Transaction 0 ''t4'' 10 RUB (Some 9) (Some 1) 0 0 7 False,
      4 := new_Transaction 0 ''t5'' 200 RUB None (Some 0) 0 0 6 True,
      5 := new_Transaction 0 ''lo'' 10 RUB (Some 0) None 0 0 1 False,
      6 := new_Transaction 0 ''hi'' 10 RUB (Some 0) None 0 1000000 10 False,
      7 := new_Transaction 0 ''t8'' 1 RUB None (Some 0) 2 0 5 False,
      8 := new_Transaction 0 ''t9'' 90 RUB (Some 2) (Some 0) 1 0 4 False,
      9 := new_Transaction 0 ''t10'' 50 RUB (Some 2) (Some 2) 2 0 3 False,
      10 := new_Transaction 0 ''t11'' 100 RUB (Some 4) (Some 1) 0 0 2 False,
      11 := new_Transaction 0 ''t12'' (- 1) RUB None (Some 3) 0 0 1 False)"

definition ex_state :: state where
  "ex_state = TransactionProcessor_init ex_txs ex_objs empty_queue None None None"




section \<open>Verification\<close>

subsection \<open>Auxiliary facts\<close>

lemma tx_type_TRANSFER [simp]: "(t :: TransactionType) = TRANSFER"
  by (cases t) simp


lemma ex_state_simps:
  "st_txs ex_state = ex_txs" "st_objs ex_state = ex_objs" "st_queue ex_state = empty_queue"
  "rates (st_config ex_state) = default_rates" "external_fee_fixed (st_config ex_state) = 1"
  "max_retries (st_config ex_state) = 2" "error_log ex_state = []"
  "audit_log ex_state = None" "risk_analyzer ex_state = None"
  by (simp_all add: ex_state_def TransactionProcessor_init_def default_ProcessorConfig_def)

lemma ex_objs_simps:
  "ex_objs 0 = Account acc_A" "ex_objs 1 = Account acc_B" "ex_objs 2 = Account acc_P"
  "ex_objs 3 = Account acc_F" "ex_objs 4 = Account acc_Q" "ex_objs 9 = PlainObject"
  by (simp_all add: ex_objs_def)




subsection \<open>Execution of a transfer\<close>









subsection \<open>Premium senders\<close>












subsection \<open>Outcomes of \<^verbatim>\<open>process_next\<close>\<close>

lemma pop_loop_pending:
  "pop_loop now txs its h = (Some r, h1) \<Longrightarrow> status (txs r) = PENDING"
  by (induction h) (auto split: if_splits option.splits)

lemma pop_ready_pending:
  "pop_ready clock txs q now = (Some r, q1) \<Longrightarrow> status (txs r) = PENDING"
  by (auto simp add: pop_ready_def split: prod.splits dest: pop_loop_pending)

lemma risk_stage_fields:
  assumes "risk_stage clock st tx now = (res, st2)"
  shows "st_txs st2 = st_txs st" and "st_objs st2 = st_objs st" and "st_queue st2 = st_queue st"
    and "st_config st2 = st_config st" and "error_log st2 = error_log st"
  using assms
  by (auto simp add: risk_stage_def Let_def split: option.splits prod.splits if_splits)

lemma process_next_executes:
  assumes "pop_ready clock (st_txs st) (st_queue st) now = (Some r, q1)"
    and "risk_stage clock (st\<lparr>st_queue := q1\<rparr>) (st_txs st r) now = (None, st2)"
  shows "process_next clock st now = execute clock st2 r"
  using assms by (simp add: process_next_def)

text \<open>
  Claim C8. When \<^verbatim>\<open>process_next\<close> pops a transaction, the risk stage lets it pass and
  its execution raises one of the four terminal errors, \<^verbatim>\<open>process_next\<close> returns
  \<^verbatim>\<open>True\<close>: the transaction is marked failed with the message of the error, and one
  entry is appended to the error log. The error does not reach the caller.
\<close>

theorem terminal_error_becomes_failed:
  assumes pop: "pop_ready clock (st_txs st) (st_queue st) now = (Some r, q')"
    and risk: "risk_stage clock (st\<lparr>st_queue := q'\<rparr>) (st_txs st r) now = (None, st_r)"
    and exec: "process_transaction (st_config st) (st_objs st) (st_txs st r) = (objs', Some e)"
    and terminal: "is_terminal e"
  shows "\<exists>st1. process_next clock st now = (True, st1) \<and>
           status (st_txs st1 r) = FAILED \<and>
           failure_reason (st_txs st1 r) = Some (exn_str e) \<and>
           error_log st1 =
             error_log st @ [tx_id (st_txs st r) @ '': '' @ exn_type_name e @ '': '' @ exn_str e]"
proof -
  note f = risk_stage_fields[OF risk]
  have "process_transaction (st_config st_r) (st_objs st_r) (st_txs st_r r) = (objs', Some e)"
    using exec f by simp
  then show ?thesis
    using terminal f process_next_executes[OF pop risk]
    by (simp add: execute_def mark_failed_def Let_def)
qed

text \<open>
  Claim C4, amended. When the execution of the popped transaction raises any other error,
  the attempt counter is incremented. If it now exceeds \<^verbatim>\<open>max_retries\<close>, the
  transaction is marked failed with the reason \<^verbatim>\<open>temporary_error: \<close> followed by the
  message, and the error is logged. Otherwise the transaction stays pending and is pushed
  back on the heap with \<^verbatim>\<open>scheduled_at\<close> set to the wall clock plus one second per
  attempt; the argument \<^verbatim>\<open>now\<close> plays no part in the new time.
\<close>

theorem transient_error_retry:
  assumes pop: "pop_ready clock (st_txs st) (st_queue st) now = (Some r, q')"
    and risk: "risk_stage clock (st\<lparr>st_queue := q'\<rparr>) (st_txs st r) now = (None, st_r)"
    and exec: "process_transaction (st_config st) (st_objs st) (st_txs st r) = (objs', Some e)"
    and transient: "\<not> is_terminal e"
  shows "\<exists>st1. process_next clock st now = (True, st1) \<and>
           attempts (st_txs st1 r) = attempts (st_txs st r) + 1 \<and>
           (if attempts (st_txs st r) + 1 > max_retries (st_config st)
            then status (st_txs st1 r) = FAILED \<and>
                 failure_reason (st_txs st1 r) = Some (''temporary_error: '' @ exn_str e) \<and>
                 error_log st1 =
                   error_log st @ [tx_id (st_txs st r) @ '': temporary_error: '' @ exn_str e] \<and>
                 st_queue st1 = q'
            else status (st_txs st1 r) = PENDING \<and>
                 scheduled_at (st_txs st1 r) =
                   (if attempts (st_txs st r) + 1 > 0
                    then clock + timedelta_seconds (attempts (st_txs st r) + 1)
                    else scheduled_at (st_txs st r)) \<and>
                 heap (st_queue st1) =
                   heappush (heap q')
                     \<lparr>qi_scheduled_at = scheduled_at (st_txs st1 r),
                      neg_priority = - priority (st_txs st r),
                      qi_order = order_seq q' + 1, qi_tx_id = tx_id (st_txs st r)\<rparr> \<and>
                 error_log st1 = error_log st)"
proof -
  note f = risk_stage_fields[OF risk]
  have pend: "status (st_txs st r) = PENDING" using pop_ready_pending[OF pop] .
  have q: "st_queue st_r = q'" using f by simp
  have "process_transaction (st_config st_r) (st_objs st_r) (st_txs st_r r) = (objs', Some e)"
    using exec f by simp
  then show ?thesis
    using transient f q pend process_next_executes[OF pop risk]
    by (simp add: execute_def mark_failed_def requeue_def Let_def)
qed


lemmas ex_eval =
  ex_state_simps ex_txs_def new_Transaction_def empty_queue_def add_def pop_ready_def
  now_or_def Let_def risk_stage_def

theorem terminal_error_becomes_failed_witness:
  "\<exists>st1. process_next 0 (step ex_state (0, Add 1)) (Some 0) = (True, st1) \<and>
     status (st_txs st1 1) = FAILED \<and>
     failure_reason (st_txs st1 1) = Some (exn_str (AccountFrozenError ''Account is frozen.'')) \<and>
     error_log st1 =
       error_log (step ex_state (0, Add 1)) @
         [tx_id (st_txs (step ex_state (0, Add 1)) 1) @ '': '' @
          exn_type_name (AccountFrozenError ''Account is frozen.'') @ '': '' @
          exn_str (AccountFrozenError ''Account is frozen.'')]"
proof -
  let ?st = "step ex_state (0, Add 1)"
  obtain q' where pop: "pop_ready 0 (st_txs ?st) (st_queue ?st) (Some 0) = (Some 1, q')"
    by (simp add: ex_eval)
  have risk: "risk_stage 0 (?st\<lparr>st_queue := q'\<rparr>) (st_txs ?st 1) (Some 0)
                = (None, ?st\<lparr>st_queue := q'\<rparr>)"
    by (simp add: ex_eval)
  have exec: "process_transaction (st_config ?st) (st_objs ?st) (st_txs ?st 1)
                = (ex_objs, Some (AccountFrozenError ''Account is frozen.''))"
    by (simp add: ex_eval process_transaction_def ensure_account_active_def ex_objs_simps acc_F_def)
  show ?thesis
    by (rule terminal_error_becomes_failed [OF pop risk exec]) simp
qed

text \<open>
  Claim C4, as stated, fails: \<^verbatim>\<open>requeue\<close> adds the delay to
  \<^verbatim>\<open>datetime.now(timezone.utc)\<close>, not to the argument of \<^verbatim>\<open>process_next\<close>. With
  \<^verbatim>\<open>now\<close> at 0 and the wall clock at 100 seconds, the first failure reschedules the
  transaction at 101 seconds, not at 1 second.
\<close>

theorem retry_backoff_counterexample:
  "snd (process_transaction (st_config (step ex_state (0, Add 3)))
          (st_objs (step ex_state (0, Add 3))) (st_txs (step ex_state (0, Add 3)) 3))
     = Some (AttributeError ''object has no attribute status'') \<and>
   fst (pop_ready 100000000 (st_txs (step ex_state (0, Add 3)))
          (st_queue (step ex_state (0, Add 3))) (Some 0)) = Some 3 \<and>
   status (st_txs (snd (process_next 100000000 (step ex_state (0, Add 3)) (Some 0))) 3) = PENDING \<and>
   attempts (st_txs (snd (process_next 100000000 (step ex_state (0, Add 3)) (Some 0))) 3) = 1 \<and>
   scheduled_at (st_txs (snd (process_next 100000000 (step ex_state (0, Add 3)) (Some 0))) 3)
     = 101000000 \<and>
   scheduled_at (st_txs (snd (process_next 100000000 (step ex_state (0, Add 3)) (Some 0))) 3)
     \<noteq> 0 + timedelta_seconds (1 * 1)"
  by (simp add: ex_eval process_next_def execute_def requeue_def process_transaction_def
      ensure_account_active_def ex_objs_simps no_attribute_def timedelta_seconds_def)

theorem transient_error_retry_witness:
  "\<exists>st1. process_next 100000000 (step ex_state (0, Add 3)) (Some 0) = (True, st1) \<and>
     attempts (st_txs st1 3) = attempts (st_txs (step ex_state (0, Add 3)) 3) + 1 \<and>
     status (st_txs st1 3) = PENDING \<and>
     scheduled_at (st_txs st1 3) = 100000000 + timedelta_seconds 1"
proof -
  let ?st = "step ex_state (0, Add 3)"
  obtain q' where pop: "pop_ready 100000000 (st_txs ?st) (st_queue ?st) (Some 0) = (Some 3, q')"
    by (simp add: ex_eval)
  have risk: "risk_stage 100000000 (?st\<lparr>st_queue := q'\<rparr>) (st_txs ?st 3) (Some 0)
                = (None, ?st\<lparr>st_queue := q'\<rparr>)"
    by (simp add: ex_eval)
  have exec: "process_transaction (st_config ?st) (st_objs ?st) (st_txs ?st 3)
                = (ex_objs, Some (no_attribute ''status''))"
    by (simp add: ex_eval process_transaction_def ensure_account_active_def ex_objs_simps)
  have tr: "\<not> is_terminal (no_attribute ''status'')"
    by (simp add: no_attribute_def)
  have a: "attempts (st_txs ?st 3) = 0" "max_retries (st_config ?st) = 2"
    by (simp_all add: ex_eval)
  show ?thesis
    using transient_error_retry [OF pop risk exec tr] a by auto
qed

subsection \<open>The frequency rule of the risk analyzer\<close>












subsection \<open>The id map and the life cycle under sequences of operations\<close>

lemma items_pop_ready: "items (snd (pop_ready clock txs q now)) = items q"
  by (simp add: pop_ready_def split: prod.splits)

lemma items_requeue: "items (snd (requeue clock txs q r d)) = items q"
  by (simp add: requeue_def Let_def)

lemma items_add:
  "add txs q r = Inr q' \<Longrightarrow> items q' = (items q)(tx_id (txs r) \<mapsto> r)"
  by (auto simp add: add_def Let_def split: if_splits)

lemma items_execute: "items (st_queue (snd (execute clock st r))) = items (st_queue st)"
  by (simp add: execute_def Let_def requeue_def split: prod.splits option.splits)

lemma items_process_next:
  "items (st_queue (snd (process_next clock st now))) = items (st_queue st)"
proof (cases "pop_ready clock (st_txs st) (st_queue st) now")
  case (Pair res q')
  have q: "items q' = items (st_queue st)"
    using items_pop_ready[of clock "st_txs st" "st_queue st" now] Pair by simp
  show ?thesis
  proof (cases res)
    case None
    then show ?thesis using Pair q by (simp add: process_next_def)
  next
    case (Some r)
    obtain b st_r where rs: "risk_stage clock (st\<lparr>st_queue := q'\<rparr>) (st_txs st r) now = (b, st_r)"
      by (cases "risk_stage clock (st\<lparr>st_queue := q'\<rparr>) (st_txs st r) now") auto
    have "st_queue st_r = q'" using risk_stage_fields(3)[OF rs] by simp
    then show ?thesis
      using Pair Some rs q items_execute[of clock st_r r]
      by (cases b) (simp_all add: process_next_def)
  qed
qed

lemma items_step:
  "items (st_queue st) k \<noteq> None \<Longrightarrow> items (st_queue (step st cop)) k \<noteq> None"
proof (cases cop)
  case (Pair clock o1)
  assume k: "items (st_queue st) k \<noteq> None"
  show ?thesis
  proof (cases o1)
    case (Add r)
    then show ?thesis using Pair k
      by (auto simp add: items_add split: sum.splits)
  next
    case (Cancel tid reason)
    then show ?thesis using Pair k by simp
  next
    case (PopReady now)
    then show ?thesis using Pair k by (simp add: items_pop_ready)
  next
    case (Requeue r d)
    then show ?thesis using Pair k items_requeue[of clock "st_txs st" "st_queue st" r d]
      by (auto split: prod.splits)
  next
    case (ProcessNext now)
    then show ?thesis using Pair k by (simp add: items_process_next)
  qed
qed

lemma items_run:
  "items (st_queue st) k \<noteq> None \<Longrightarrow> items (st_queue (run st ops)) k \<noteq> None"
  unfolding run_def
proof (induction ops arbitrary: st)
  case Nil
  then show ?case by simp
next
  case (Cons a ops)
  from Cons.prems have "items (st_queue (step st a)) k \<noteq> None" by (rule items_step)
  from Cons.IH[OF this] show ?case by simp
qed

text \<open>
  Claim C9. Once \<^verbatim>\<open>add\<close> has succeeded for a transaction, its id stays in the id map
  under every sequence of \<^verbatim>\<open>add\<close>, \<^verbatim>\<open>cancel\<close>, \<^verbatim>\<open>pop_ready\<close>,
  \<^verbatim>\<open>requeue\<close> and \<^verbatim>\<open>process_next\<close>, and a later \<^verbatim>\<open>add\<close> of any transaction
  carrying that id raises \<^verbatim>\<open>ValueError\<close>, whatever the status of the first has become.
\<close>

theorem added_id_stays_known:
  assumes "add (st_txs st) (st_queue st) r = Inr q"
  shows "items (st_queue (run (st\<lparr>st_queue := q\<rparr>) ops)) (tx_id (st_txs st r)) \<noteq> None \<and>
         (\<forall>r'. tx_id (st_txs (run (st\<lparr>st_queue := q\<rparr>) ops) r') = tx_id (st_txs st r) \<longrightarrow>
            (\<exists>m. add (st_txs (run (st\<lparr>st_queue := q\<rparr>) ops))
                      (st_queue (run (st\<lparr>st_queue := q\<rparr>) ops)) r' = Inl (ValueError m)))"
proof -
  have "items q (tx_id (st_txs st r)) \<noteq> None"
    using items_add[OF assms] by simp
  then have k: "items (st_queue (run (st\<lparr>st_queue := q\<rparr>) ops)) (tx_id (st_txs st r)) \<noteq> None"
    using items_run[of "st\<lparr>st_queue := q\<rparr>" "tx_id (st_txs st r)" ops] by simp
  then show ?thesis by (auto simp add: add_def)
qed


lemma execute_other:
  "r' \<noteq> r \<Longrightarrow> st_txs (snd (execute clock st r)) r' = st_txs st r'"
  by (simp add: execute_def Let_def requeue_def split: prod.splits option.splits)

lemma execute_tx_id:
  "tx_id (st_txs (snd (execute clock st r)) r') = tx_id (st_txs st r')"
  by (simp add: execute_def Let_def requeue_def mark_failed_def mark_processed_def
      split: prod.splits option.splits)

lemma process_next_txs:
  "process_next clock st now = (b, st') \<Longrightarrow>
     (\<exists>r st_r. status (st_txs st r) = PENDING \<and> st_txs st_r = st_txs st \<and>
        (st_txs st' = st_txs (snd (execute clock st_r r)) \<or>
         (\<exists>reason. st_txs st' = (st_txs st)(r := mark_failed clock (st_txs st r) reason))))
     \<or> st_txs st' = st_txs st"
proof (cases "pop_ready clock (st_txs st) (st_queue st) now")
  case (Pair res q')
  assume pn: "process_next clock st now = (b, st')"
  show ?thesis
  proof (cases res)
    case None
    then show ?thesis using Pair pn by (auto simp add: process_next_def)
  next
    case (Some r)
    have pend: "status (st_txs st r) = PENDING"
      using pop_ready_pending[of clock "st_txs st" "st_queue st" now r q'] Pair Some by simp
    obtain c st_r where rs: "risk_stage clock (st\<lparr>st_queue := q'\<rparr>) (st_txs st r) now = (c, st_r)"
      by (cases "risk_stage clock (st\<lparr>st_queue := q'\<rparr>) (st_txs st r) now") auto
    have t: "st_txs st_r = st_txs st" using risk_stage_fields(1)[OF rs] by simp
    show ?thesis
    proof (cases c)
      case None
      then have "st' = snd (execute clock st_r r)"
        using Pair Some rs pn by (simp add: process_next_def)
      then show ?thesis using pend t by blast
    next
      case (Some reason)
      then have "st_txs st' = (st_txs st)(r := mark_failed clock (st_txs st r) reason)"
        using Pair \<open>res = Some r\<close> rs pn t by (auto simp add: process_next_def)
      then show ?thesis using pend by blast
    qed
  qed
qed

lemma process_next_not_pending:
  assumes "status (st_txs st r') \<noteq> PENDING"
  shows "st_txs (snd (process_next clock st now)) r' = st_txs st r'"
proof -
  obtain b st' where pn: "process_next clock st now = (b, st')"
    by (cases "process_next clock st now") auto
  from process_next_txs[OF pn] assms show ?thesis
    using pn execute_other[of r' _ clock]
    by (auto simp add: fun_upd_def) metis+
qed


lemma step_not_pending:
  assumes "status (st_txs st r) \<noteq> PENDING" and "\<forall>tid reason. snd cop \<noteq> Cancel tid reason"
  shows "st_txs (step st cop) r = st_txs st r"
proof (cases cop)
  case (Pair clock o1)
  show ?thesis
  proof (cases o1)
    case (Add r0)
    then show ?thesis using Pair by (simp split: sum.splits)
  next
    case (Cancel tid reason)
    then show ?thesis using Pair assms by simp
  next
    case (PopReady now)
    then show ?thesis using Pair by simp
  next
    case (Requeue r0 d)
    then show ?thesis using Pair assms
      by (auto simp add: requeue_def Let_def split: prod.splits)
  next
    case (ProcessNext now)
    then show ?thesis using Pair assms by (simp add: process_next_not_pending)
  qed
qed

lemma cancel_status:
  "status (snd (cancel clock txs q tid reason) r) =
     (if items q tid = Some r \<and> status (txs r) \<noteq> PROCESSED \<and> status (txs r) \<noteq> CANCELLED
      then CANCELLED else status (txs r))"
  by (auto simp add: cancel_def Transaction_cancel_def split: option.splits)

lemma step_status:
  "(status (st_txs st r) = PROCESSED \<longrightarrow> status (st_txs (step st cop) r) = PROCESSED) \<and>
   (status (st_txs st r) = CANCELLED \<longrightarrow> status (st_txs (step st cop) r) = CANCELLED) \<and>
   (status (st_txs st r) = FAILED \<longrightarrow>
      status (st_txs (step st cop) r) = FAILED \<or> status (st_txs (step st cop) r) = CANCELLED)"
proof (cases "\<exists>tid reason. snd cop = Cancel tid reason")
  case True
  then obtain clock tid reason where "cop = (clock, Cancel tid reason)"
    by (cases cop) auto
  then show ?thesis by (simp add: cancel_status)
next
  case False
  then have "status (st_txs st r) \<noteq> PENDING \<Longrightarrow> st_txs (step st cop) r = st_txs st r"
    using step_not_pending[of st r cop] by simp
  then show ?thesis by auto
qed

lemma run_Cons: "run st (cop # ops) = run (step st cop) ops"
  by (simp add: run_def)

lemma run_status:
  "(status (st_txs st r) = PROCESSED \<longrightarrow> status (st_txs (run st ops) r) = PROCESSED) \<and>
   (status (st_txs st r) = CANCELLED \<longrightarrow> status (st_txs (run st ops) r) = CANCELLED) \<and>
   (status (st_txs st r) = FAILED \<longrightarrow>
      status (st_txs (run st ops) r) = FAILED \<or> status (st_txs (run st ops) r) = CANCELLED)"
proof (induction ops arbitrary: st)
  case Nil
  then show ?case by (simp add: run_def)
next
  case (Cons cop ops)
  show ?case
    using step_status[of st r cop] Cons.IH[of "step st cop"]
    by (auto simp add: run_Cons)
qed

lemma run_failed_without_cancel:
  assumes "status (st_txs st r) = FAILED"
    and "\<forall>clock tid reason. (clock, Cancel tid reason) \<notin> set ops"
  shows "st_txs (run st ops) r = st_txs st r"
  using assms
proof (induction ops arbitrary: st)
  case Nil
  then show ?case by (simp add: run_def)
next
  case (Cons cop ops)
  have nc: "\<forall>tid reason. snd cop \<noteq> Cancel tid reason"
    using Cons.prems(2) by (cases cop) auto
  have s: "st_txs (step st cop) r = st_txs st r"
    using step_not_pending[of st r cop] Cons.prems(1) nc by simp
  have "st_txs (run (step st cop) ops) r = st_txs (step st cop) r"
    using Cons.IH[of "step st cop"] Cons.prems s by simp
  then show ?case using s by (simp add: run_Cons)
qed

text \<open>
  Claim C3, amended. Under every sequence of queue and processor operations a processed
  transaction stays processed and a cancelled one stays cancelled. A failed transaction
  stays failed or becomes cancelled; it stays failed when the sequence has no
  \<^verbatim>\<open>cancel\<close>.
\<close>

theorem terminal_status_after_run:
  "(status (st_txs st r) = PROCESSED \<longrightarrow> status (st_txs (run st ops) r) = PROCESSED) \<and>
   (status (st_txs st r) = CANCELLED \<longrightarrow> status (st_txs (run st ops) r) = CANCELLED) \<and>
   (status (st_txs st r) = FAILED \<longrightarrow>
      status (st_txs (run st ops) r) = FAILED \<or> status (st_txs (run st ops) r) = CANCELLED) \<and>
   (status (st_txs st r) = FAILED \<and> (\<forall>clock tid reason. (clock, Cancel tid reason) \<notin> set ops) \<longrightarrow>
      status (st_txs (run st ops) r) = FAILED)"
  using run_status[of st r ops] run_failed_without_cancel[of st r ops] by auto


lemmas run_eval =
  run_def ex_eval process_next_def execute_def process_transaction_def
  ensure_account_active_def ex_objs_simps mark_failed_def mark_processed_def cancel_def
  Transaction_cancel_def requeue_def

text \<open>
  Claim C3, as stated, fails: the guard of \<^verbatim>\<open>TransactionQueue.cancel\<close> lists
  \<^verbatim>\<open>PROCESSED\<close> and \<^verbatim>\<open>CANCELLED\<close> only, so a failed transaction can still be
  cancelled. Here the transfer to the frozen account fails, and the later
  \<^verbatim>\<open>cancel\<close> turns \<^verbatim>\<open>FAILED\<close> into \<^verbatim>\<open>CANCELLED\<close>.
\<close>

theorem failed_then_cancelled_counterexample:
  "status (st_txs (run ex_state [(0, Add 1), (0, ProcessNext (Some 0))]) 1) = FAILED \<and>
   status (st_txs (run ex_state [(0, Add 1), (0, ProcessNext (Some 0)),
                                 (0, Cancel ''t2'' ''cancelled_by_user'')]) 1) = CANCELLED"
  by (simp add: run_eval acc_F_def)

theorem terminal_status_after_run_witness:
  "status (st_txs (run (run ex_state [(0, Add 1), (0, ProcessNext (Some 0))])
                    [(5, Requeue 1 3), (5, ProcessNext None), (6, PopReady None)]) 1) = FAILED"
proof -
  have f: "status (st_txs (run ex_state [(0, Add 1), (0, ProcessNext (Some 0))]) 1) = FAILED"
    by (simp add: run_eval acc_F_def)
  show ?thesis
    using terminal_status_after_run
            [of "run ex_state [(0, Add 1), (0, ProcessNext (Some 0))]" 1
               "[(5, Requeue 1 3), (5, ProcessNext None), (6, PopReady None)]"] f
    by simp
qed

theorem added_id_stays_known_witness:
  "\<exists>m. add (st_txs (run (ex_state\<lparr>st_queue :=
                 \<lparr>heap = [\<lparr>qi_scheduled_at = 0, neg_priority = - 10, qi_order = 1,
                            qi_tx_id = ''t1''\<rparr>],
                  items = [''t1'' \<mapsto> 0], order_seq = 1\<rparr>\<rparr>)
               [(0, Cancel ''t1'' ''cancelled_by_user''), (0, PopReady (Some 0))]))
            (st_queue (run (ex_state\<lparr>st_queue :=
                 \<lparr>heap = [\<lparr>qi_scheduled_at = 0, neg_priority = - 10, qi_order = 1,
                            qi_tx_id = ''t1''\<rparr>],
                  items = [''t1'' \<mapsto> 0], order_seq = 1\<rparr>\<rparr>)
               [(0, Cancel ''t1'' ''cancelled_by_user''), (0, PopReady (Some 0))])) 0
        = Inl (ValueError m)"
proof -
  let ?q = "\<lparr>heap = [\<lparr>qi_scheduled_at = 0, neg_priority = - 10, qi_order = 1,
                        qi_tx_id = ''t1''\<rparr>],
              items = [''t1'' \<mapsto> 0], order_seq = 1\<rparr>"
  let ?ops = "[(0, Cancel ''t1'' ''cancelled_by_user''), (0, PopReady (Some 0))]"
  have a: "add (st_txs ex_state) (st_queue ex_state) 0 = Inr ?q"
    by (simp add: ex_eval)
  have i: "tx_id (st_txs (run (ex_state\<lparr>st_queue := ?q\<rparr>) ?ops) 0) = tx_id (st_txs ex_state 0)"
    by (simp add: run_eval)
  show ?thesis
    using added_id_stays_known [OF a, of ?ops] i by blast
qed

subsection \<open>The order of dequeuing\<close>

lemma item_lt_irrefl: "\<not> item_lt a a"
  by (simp add: item_lt_def)

lemma item_lt_asym: "item_lt a b \<Longrightarrow> \<not> item_lt b a"
  by (auto simp add: item_lt_def)

lemma item_lt_trans: "item_lt a b \<Longrightarrow> item_lt b c \<Longrightarrow> item_lt a c"
  by (auto simp add: item_lt_def)

lemma not_item_lt_scheduled: "\<not> item_lt a b \<Longrightarrow> qi_scheduled_at b \<le> qi_scheduled_at a"
  by (auto simp add: item_lt_def)

lemma set_heappush: "set (heappush h x) = insert x (set h)"
  by (induction h) auto

lemma heap_ordered_heappush: "heap_ordered h \<Longrightarrow> heap_ordered (heappush h x)"
proof (induction h)
  case Nil
  then show ?case by (simp add: heap_ordered_def)
next
  case (Cons y ys)
  then show ?case
    by (auto simp add: heap_ordered_def set_heappush dest: item_lt_asym item_lt_trans)
qed

lemma pop_loop_suffix: "pop_loop now txs its h = (res, h') \<Longrightarrow> \<exists>pre. h = pre @ h'"
proof (induction h)
  case Nil
  then show ?case by simp
next
  case (Cons t rest)
  then show ?case
    by (auto split: if_splits option.splits)
qed

lemma heap_ordered_pop_loop:
  "heap_ordered h \<Longrightarrow> pop_loop now txs its h = (res, h') \<Longrightarrow> heap_ordered h'"
  using pop_loop_suffix[of now txs its h res h']
  by (auto simp add: heap_ordered_def sorted_wrt_append)

lemma pop_loop_first_live:
  assumes "heap_ordered h" and "e1 \<in> set h" and "live txs its e1"
    and "qi_scheduled_at e1 \<le> now"
  shows "\<exists>r e0 h'. pop_loop now txs its h = (Some r, h') \<and> e0 \<in> set h \<and>
           its (qi_tx_id e0) = Some r \<and> \<not> item_lt e1 e0 \<and>
           (\<forall>e2 \<in> set h. item_lt e1 e2 \<longrightarrow> e2 \<in> set h')"
  using assms
proof (induction h)
  case Nil
  then show ?case by simp
next
  case (Cons t rest)
  have ord: "heap_ordered rest" and le: "\<forall>e \<in> set rest. \<not> item_lt e t"
    using Cons.prems(1) by (simp_all add: heap_ordered_def)
  have nlt: "\<not> item_lt e1 t"
    using Cons.prems(2) le by (auto simp add: item_lt_irrefl)
  then have ready: "\<not> qi_scheduled_at t > now"
    using not_item_lt_scheduled[OF nlt] Cons.prems(4) by simp
  show ?case
  proof (cases "live txs its t")
    case True
    then obtain r where r: "its (qi_tx_id t) = Some r" "status (txs r) = PENDING"
      by (auto simp add: live_def split: option.splits)
    have "\<forall>e2 \<in> set (t # rest). item_lt e1 e2 \<longrightarrow> e2 \<in> set rest"
      using nlt by auto
    then show ?thesis using r ready nlt by auto
  next
    case False
    then have skip: "pop_loop now txs its (t # rest) = pop_loop now txs its rest"
      using ready by (auto simp add: live_def split: option.splits)
    have "e1 \<noteq> t" using False Cons.prems(3) by auto
    then have "e1 \<in> set rest" using Cons.prems(2) by simp
    from Cons.IH[OF ord this Cons.prems(3,4)]
    obtain r e0 h' where p: "pop_loop now txs its rest = (Some r, h')" "e0 \<in> set rest"
      "its (qi_tx_id e0) = Some r" "\<not> item_lt e1 e0"
      "\<forall>e2 \<in> set rest. item_lt e1 e2 \<longrightarrow> e2 \<in> set h'"
      by blast
    have "\<forall>e2 \<in> set (t # rest). item_lt e1 e2 \<longrightarrow> e2 \<in> set h'"
      using p(5) nlt by auto
    then show ?thesis using p skip by auto
  qed
qed

text \<open>
  Claim C1, amended. Let the heap be in heap order, and let \<open>e1\<close> and \<open>e2\<close> be two of its
  items that are both ready at \<open>now\<close> and both live, with \<open>e1\<close> before \<open>e2\<close> in the order
  of the items: an earlier \<^verbatim>\<open>scheduled_at\<close>, or the same \<^verbatim>\<open>scheduled_at\<close> and a
  strictly higher priority, or the same of both and a smaller insertion number. Then
  \<^verbatim>\<open>pop_ready\<close> returns the transaction of an item that is not after \<open>e1\<close>, hence not
  of \<open>e2\<close>, and leaves \<open>e2\<close> in the heap.
\<close>

theorem pop_ready_respects_heap_order:
  assumes "heap_ordered (heap q)"
    and "e1 \<in> set (heap q)" and "e2 \<in> set (heap q)"
    and "live txs (items q) e1" and "live txs (items q) e2"
    and "qi_scheduled_at e1 \<le> now_or clock now" and "qi_scheduled_at e2 \<le> now_or clock now"
    and "item_lt e1 e2"
  shows "\<exists>r e0 q'. pop_ready clock txs q now = (Some r, q') \<and> e0 \<in> set (heap q) \<and>
           items q (qi_tx_id e0) = Some r \<and> \<not> item_lt e1 e0 \<and> e0 \<noteq> e2 \<and>
           e2 \<in> set (heap q')"
proof -
  from pop_loop_first_live[OF assms(1,2,4,6)]
  obtain r e0 h' where p: "pop_loop (now_or clock now) txs (items q) (heap q) = (Some r, h')"
    "e0 \<in> set (heap q)" "items q (qi_tx_id e0) = Some r" "\<not> item_lt e1 e0"
    "\<forall>e \<in> set (heap q). item_lt e1 e \<longrightarrow> e \<in> set h'"
    by blast
  have "e0 \<noteq> e2" using p(4) assms(8) by auto
  moreover have "e2 \<in> set h'" using p(5) assms(3,8) by auto
  ultimately show ?thesis using p by (auto simp add: pop_ready_def)
qed


text \<open>
  The heap order holds in every state reached from the empty queue.
\<close>

lemma heap_ordered_pop_ready:
  "heap_ordered (heap q) \<Longrightarrow> heap_ordered (heap (snd (pop_ready clock txs q now)))"
  by (auto simp add: pop_ready_def split: prod.splits dest: heap_ordered_pop_loop)

lemma heap_ordered_requeue:
  "heap_ordered (heap q) \<Longrightarrow> heap_ordered (heap (snd (requeue clock txs q r d)))"
  by (simp add: requeue_def Let_def heap_ordered_heappush)

lemma heap_ordered_execute:
  assumes "heap_ordered (heap (st_queue st))"
  shows "heap_ordered (heap (st_queue (snd (execute clock st r))))"
proof -
  have "st_queue (snd (execute clock st r)) = st_queue st \<or>
        (\<exists>txs d. st_queue (snd (execute clock st r)) = snd (requeue clock txs (st_queue st) r d))"
    by (auto simp add: execute_def Let_def split: prod.splits option.splits)
       (metis snd_conv)
  then show ?thesis using assms heap_ordered_requeue by auto
qed

lemma heap_ordered_process_next:
  assumes "heap_ordered (heap (st_queue st))"
  shows "heap_ordered (heap (st_queue (snd (process_next clock st now))))"
proof (cases "pop_ready clock (st_txs st) (st_queue st) now")
  case (Pair res q')
  have q: "heap_ordered (heap q')"
    using heap_ordered_pop_ready[OF assms, of clock "st_txs st" now] Pair by simp
  show ?thesis
  proof (cases res)
    case None
    then show ?thesis using Pair q by (simp add: process_next_def)
  next
    case (Some r)
    obtain b st_r where rs: "risk_stage clock (st\<lparr>st_queue := q'\<rparr>) (st_txs st r) now = (b, st_r)"
      by (cases "risk_stage clock (st\<lparr>st_queue := q'\<rparr>) (st_txs st r) now") auto
    have "st_queue st_r = q'" using risk_stage_fields(3)[OF rs] by simp
    then show ?thesis
      using Pair Some rs q heap_ordered_execute[of st_r clock r]
      by (cases b) (simp_all add: process_next_def)
  qed
qed

lemma heap_ordered_step:
  assumes "heap_ordered (heap (st_queue st))"
  shows "heap_ordered (heap (st_queue (step st cop)))"
proof (cases cop)
  case (Pair clock o1)
  show ?thesis
  proof (cases o1)
    case (Add r)
    then show ?thesis using Pair assms
      by (auto simp add: add_def Let_def heap_ordered_heappush split: sum.splits if_splits)
  next
    case (Cancel tid reason)
    then show ?thesis using Pair assms by simp
  next
    case (PopReady now)
    then show ?thesis using Pair assms by (simp add: heap_ordered_pop_ready)
  next
    case (Requeue r d)
    then show ?thesis
      using Pair heap_ordered_requeue[OF assms, of clock "st_txs st" r d]
      by (auto split: prod.splits)
  next
    case (ProcessNext now)
    then show ?thesis using Pair assms by (simp add: heap_ordered_process_next)
  qed
qed

lemma heap_ordered_run:
  "heap_ordered (heap (st_queue st)) \<Longrightarrow> heap_ordered (heap (st_queue (run st ops)))"
  unfolding run_def
proof (induction ops arbitrary: st)
  case Nil
  then show ?case by simp
next
  case (Cons a ops)
  from Cons.prems have "heap_ordered (heap (st_queue (step st a)))" by (rule heap_ordered_step)
  from Cons.IH[OF this] show ?case by simp
qed

lemma heap_ordered_empty: "heap_ordered (heap empty_queue)"
  by (simp add: heap_ordered_def empty_queue_def)

text \<open>
  Claim C1, as stated, fails: the items are ordered by \<^verbatim>\<open>scheduled_at\<close> before the
  priority. With a transaction of priority 1 scheduled at 0 and one of priority 10 scheduled
  one second later, both ready and pending at second 5, \<^verbatim>\<open>pop_ready\<close> returns the one
  of priority 1.
\<close>

theorem priority_first_counterexample:
  "scheduled_at (ex_txs 5) \<le> 5000000 \<and> scheduled_at (ex_txs 6) \<le> 5000000 \<and>
   status (ex_txs 5) = PENDING \<and> status (ex_txs 6) = PENDING \<and>
   priority (ex_txs 5) < priority (ex_txs 6) \<and>
   fst (pop_ready 0 ex_txs (st_queue (run ex_state [(0, Add 5), (0, Add 6)])) (Some 5000000))
     = Some 5"
  by (simp add: run_eval item_lt_def)

theorem pop_ready_respects_heap_order_witness:
  "\<exists>r e0 q'. pop_ready 0 ex_txs (st_queue (run ex_state [(0, Add 5), (0, Add 0)])) (Some 0)
                = (Some r, q') \<and>
     e0 \<in> set (heap (st_queue (run ex_state [(0, Add 5), (0, Add 0)]))) \<and>
     items (st_queue (run ex_state [(0, Add 5), (0, Add 0)])) (qi_tx_id e0) = Some r \<and>
     \<not> item_lt \<lparr>qi_scheduled_at = 0, neg_priority = - 10, qi_order = 2, qi_tx_id = ''t1''\<rparr> e0 \<and>
     e0 \<noteq> \<lparr>qi_scheduled_at = 0, neg_priority = - 1, qi_order = 1, qi_tx_id = ''lo''\<rparr> \<and>
     \<lparr>qi_scheduled_at = 0, neg_priority = - 1, qi_order = 1, qi_tx_id = ''lo''\<rparr> \<in> set (heap q')"
proof -
  have h: "heap (st_queue (run ex_state [(0, Add 5), (0, Add 0)])) =
             [\<lparr>qi_scheduled_at = 0, neg_priority = - 10, qi_order = 2, qi_tx_id = ''t1''\<rparr>,
              \<lparr>qi_scheduled_at = 0, neg_priority = - 1, qi_order = 1, qi_tx_id = ''lo''\<rparr>]"
    and i: "items (st_queue (run ex_state [(0, Add 5), (0, Add 0)])) = [''lo'' \<mapsto> 5, ''t1'' \<mapsto> 0]"
    by (simp_all add: run_eval item_lt_def)
  show ?thesis
    by (rule pop_ready_respects_heap_order)
       (simp_all add: h i heap_ordered_def item_lt_def live_def now_or_def ex_txs_def
          new_Transaction_def)
qed

text \<open>
  Claim C2 at a failing input. A transaction scheduled at 0 is added and then, while its
  item is still in the heap, requeued with a delay of 10 seconds at wall-clock time 0: its
  \<^verbatim>\<open>scheduled_at\<close> is now second 10, but the old item still carries 0. So
  \<^verbatim>\<open>pop_ready\<close> at \<open>now = 0\<close> returns the transaction, pending, ten seconds before its
  scheduled time.
\<close>

theorem requeued_transaction_popped_early:
  "status (st_txs (run ex_state [(0, Add 5), (0, Requeue 5 10)]) 5) = PENDING \<and>
   scheduled_at (st_txs (run ex_state [(0, Add 5), (0, Requeue 5 10)]) 5) = 10000000 \<and>
   fst (pop_ready 0 (st_txs (run ex_state [(0, Add 5), (0, Requeue 5 10)]))
          (st_queue (run ex_state [(0, Add 5), (0, Requeue 5 10)])) (Some 0)) = Some 5 \<and>
   \<not> scheduled_at (st_txs (run ex_state [(0, Add 5), (0, Requeue 5 10)]) 5) \<le> 0"
  by (simp add: run_eval item_lt_def timedelta_seconds_def)

end
